theory Spec2Isabelle
  imports Complex_Main
begin

section \<open>JavaScript values used by the pipeline\<close>

text \<open>
  A JavaScript number that is read from a row or from the scorer's response is either a
  finite value or \<open>NaN\<close> (the result of converting a missing or non-numeric field).
  Comparisons with \<open>NaN\<close> are false. Arithmetic on finite values is modelled over the
  reals; the rounding of IEEE doubles is not modelled.
\<close>

datatype jsnum = Fin real | NaN

fun js_lt :: "jsnum \<Rightarrow> jsnum \<Rightarrow> bool" where
  "js_lt (Fin a) (Fin b) = (a < b)"
| "js_lt _ _ = False"

fun js_le :: "jsnum \<Rightarrow> jsnum \<Rightarrow> bool" where
  "js_le (Fin a) (Fin b) = (a \<le> b)"
| "js_le _ _ = False"

text \<open>\<open>s || d\<close> on an optional string: a missing field and the empty string are falsy.\<close>

fun orElse :: "string option \<Rightarrow> string \<Rightarrow> string" where
  "orElse None d = d"
| "orElse (Some s) d = (if s = [] then d else s)"

text \<open>\<open>String.prototype.toLowerCase\<close>, on the ASCII letters.\<close>

definition toLowerChar :: "char \<Rightarrow> char" where
  "toLowerChar c =
     (case map_of (zip ''ABCDEFGHIJKLMNOPQRSTUVWXYZ'' ''abcdefghijklmnopqrstuvwxyz'') c of
        Some l \<Rightarrow> l
      | None \<Rightarrow> c)"

definition toLowerCase :: "string \<Rightarrow> string" where
  "toLowerCase s = map toLowerChar s"

text \<open>\<open>String.prototype.includes\<close>: \<open>k\<close> occurs in \<open>s\<close> as a contiguous substring.\<close>

fun startsWith :: "string \<Rightarrow> string \<Rightarrow> bool" where
  "startsWith s [] = True"
| "startsWith [] (k # ks) = False"
| "startsWith (c # cs) (k # ks) = (c = k \<and> startsWith cs ks)"

fun includes_str :: "string \<Rightarrow> string \<Rightarrow> bool" where
  "includes_str [] k = (k = [])"
| "includes_str (c # cs) k = (startsWith (c # cs) k \<or> includes_str cs k)"

section \<open>Transactions and rule outcomes\<close>

text \<open>
  A row as the rules and the batch processor read it. \<open>amount\<close> is the numeric value of
  the row's amount field (\<open>NaN\<close> when the field is missing or not a number);
  \<open>txn_type\<close> is the field \<open>type\<close>; \<open>sender_upi_in\<close> and \<open>receiver_upi_in\<close> are the
  row's fields \<open>sender_upi\<close> and \<open>receiver_upi\<close>.
\<close>

record txn =
  txn_id :: "string option"
  sender_vpa :: "string option"
  sender_upi_in :: "string option"
  receiver_vpa :: "string option"
  receiver_upi_in :: "string option"
  amount :: jsnum
  txn_type :: "string option"
  beneficiary_type :: "string option"
  description :: "string option"

record rule_outcome =
  triggered :: bool
  risk :: nat
  rule_reason :: "string option"

definition not_triggered :: rule_outcome where
  "not_triggered = \<lparr>triggered = False, risk = 0, rule_reason = None\<rparr>"

section \<open>The rules\<close>

text \<open>
  \<open>checkGrooming(txn, history = [])\<close>: returns early when \<open>txn.amount < 1000\<close>, otherwise
  counts the history entries with \<open>amount <= 50\<close> and triggers at three or more.
\<close>

definition checkGrooming :: "txn \<Rightarrow> txn list \<Rightarrow> rule_outcome" where
  "checkGrooming t history =
     (if js_lt (amount t) (Fin 1000) then not_triggered
      else
        let microTxns = length (filter (\<lambda>h. js_le (amount h) (Fin 50)) history)
        in if microTxns \<ge> 3
           then \<lparr>triggered = True, risk = 75,
                 rule_reason = Some ''Grooming Detected: 3+ micro-transactions found before high value transfer.''\<rparr>
           else not_triggered)"

text \<open>
  \<open>checkGhostCredit(txn, lastIncomingFromBeneficiary)\<close>: only for beneficiaries of type
  INDIVIDUAL; with no record of an incoming payment, any of the keywords in the
  lower-cased description triggers the rule.
\<close>

definition suspiciousKeywords :: "string list" where
  "suspiciousKeywords = [''return'', ''mistake'', ''refund'', ''sent by mistake'', ''back'']"

definition checkGhostCredit :: "txn \<Rightarrow> 'a option \<Rightarrow> rule_outcome" where
  "checkGhostCredit t lastIncomingFromBeneficiary =
     (if beneficiary_type t \<noteq> Some ''INDIVIDUAL'' then not_triggered
      else if lastIncomingFromBeneficiary = None
              \<and> list_ex (includes_str (toLowerCase (orElse (description t) []))) suspiciousKeywords
      then \<lparr>triggered = True, risk = 95,
            rule_reason = Some ''Fake Payment Alert: You are refunding money you never received.''\<rparr>
      else not_triggered)"

text \<open>
  \<open>checkRefundScam(txn)\<close>: a COLLECT request whose lower-cased description contains one
  of the keywords.
\<close>

definition refundKeywords :: "string list" where
  "refundKeywords = [''refund'', ''cashback'', ''prize'', ''won'', ''lottery'', ''claim'']"

definition checkRefundScam :: "txn \<Rightarrow> rule_outcome" where
  "checkRefundScam t =
     (if txn_type t = Some ''COLLECT''
         \<and> list_ex (includes_str (toLowerCase (orElse (description t) []))) refundKeywords
      then \<lparr>triggered = True, risk = 100,
            rule_reason = Some ''Refund Scam: 'Collect' request disguised as a Refund/Prize.''\<rparr>
      else not_triggered)"

section \<open>The rule aggregator\<close>

text \<open>The last line of the aggregator: \<open>Math.min(totalScore / 100, 1.0)\<close>.\<close>

definition normalizeScore :: "nat \<Rightarrow> real" where
  "normalizeScore totalScore = min (real totalScore / 100) 1"

text \<open>
  \<open>checkHardcodedRules(txn)\<close>: the grooming rule is called without a history (its default
  is the empty list), the ghost-credit rule with \<open>null\<close>.
\<close>

definition checkHardcodedRules :: "txn \<Rightarrow> real" where
  "checkHardcodedRules t =
     (let totalScore = 0;
          grooming = checkGrooming t [];
          totalScore = (if triggered grooming then totalScore + risk grooming else totalScore);
          ghost = checkGhostCredit t (None :: unit option);
          totalScore = (if triggered ghost then totalScore + risk ghost else totalScore);
          refund = checkRefundScam t;
          totalScore = (if triggered refund then totalScore + risk refund else totalScore)
      in normalizeScore totalScore)"

section \<open>The remote scorer client\<close>

text \<open>
  One attempt, as the \<open>try\<close> block of the client sees it: \<open>Rejected msg\<close> when an
  error with message \<open>msg\<close> is thrown there (the post times out, the transport fails,
  the status is an error, the response has no body to read); \<open>Resolved p\<close> when the
  response has a body, \<open>p\<close> being its \<open>fraud_probability\<close>, a number or missing.
  The payload that is posted has no influence on the client and is left out, as is the
  logging.
\<close>

datatype post_outcome = Rejected string | Resolved "jsnum option"

text \<open>\<open>response.data.fraud_probability || 0\<close>: a missing field, \<open>NaN\<close> and \<open>0\<close> are falsy.\<close>

fun orZero :: "jsnum option \<Rightarrow> real" where
  "orZero None = 0"
| "orZero (Some NaN) = 0"
| "orZero (Some (Fin x)) = x"

text \<open>What a call of the client does to the outside, in order.\<close>

datatype event = Post nat | Sleep nat

fun isPost :: "event \<Rightarrow> bool" where
  "isPost (Post a) = True"
| "isPost (Sleep ms) = False"

text \<open>\<open>Math.min(1000 * Math.pow(2, attempt - 1), 5000)\<close>, for \<open>attempt \<ge> 1\<close>.\<close>

definition backoffDelay :: "nat \<Rightarrow> nat" where
  "backoffDelay attempt = min (1000 * 2 ^ (attempt - 1)) 5000"

text \<open>The decimal digits of a number, as a template literal prints it.\<close>

fun showNat :: "nat \<Rightarrow> string" where
  "showNat n =
     (if n < 10 then [''0123456789'' ! n]
      else showNat (n div 10) @ [''0123456789'' ! (n mod 10)])"

declare showNat.simps [simp del]

text \<open>
  \<open>callMlApi(apiUrl, payload, retries = 3)\<close>, from attempt \<open>attempt\<close> on. \<open>net a\<close> is what
  the post of attempt \<open>a\<close> does. The result is the returned probability (\<open>Inr\<close>) or the
  message of the error thrown (\<open>Inl\<close>), with the trace of posts and sleeps.
  The caller passes no \<open>retries\<close>, so the loop is entered with \<open>attempt = 1\<close> and
  \<open>retries = 3\<close>, and an attempt that fails with \<open>attempt < retries\<close> continues with
  \<open>attempt + 1 <= retries\<close>: the guard \<open>attempt <= retries\<close> of the \<open>for\<close> holds at
  every entry of the body and is left out. On that range the handler's test
  \<open>attempt === retries\<close> is \<open>attempt \<ge> retries\<close>, which is what makes the recursion
  terminate for all arguments. (A call with \<open>retries = 0\<close>, which in the source runs no
  attempt and returns \<open>undefined\<close>, is outside the model.)
\<close>

function callMlApi_loop ::
  "(nat \<Rightarrow> post_outcome) \<Rightarrow> nat \<Rightarrow> nat \<Rightarrow> (string + real) \<times> event list" where
  "callMlApi_loop net retries attempt =
     (case net attempt of
        Resolved p \<Rightarrow> (Inr (orZero p), [Post attempt])
      | Rejected msg \<Rightarrow>
          if attempt \<ge> retries
          then (Inl (''ML API failed after '' @ showNat retries @ '' attempts: '' @ msg),
                [Post attempt])
          else
            let (r, tr) = callMlApi_loop net retries (attempt + 1)
            in (r, Post attempt # Sleep (backoffDelay attempt) # tr))"
  by pat_completeness auto
termination
  by (relation "measure (\<lambda>(net, retries, attempt). retries - attempt)") auto

declare callMlApi_loop.simps [simp del]

definition callMlApi :: "(nat \<Rightarrow> post_outcome) \<Rightarrow> (string + real) \<times> event list" where
  "callMlApi net = callMlApi_loop net 3 1"

section \<open>The hybrid scoring and the batch\<close>

datatype verdict = FRAUD | SAFE

text \<open>
  A result object. \<open>amount_out\<close> is its field \<open>amount\<close>; \<open>ml_score = None\<close> is
  \<open>null\<close>.
\<close>

record scored =
  transaction_id :: string
  sender_upi :: string
  receiver_upi :: string
  amount_out :: real
  risk_score :: real
  verdict :: verdict
  reason :: string
  ml_score :: "real option"
  rule_score :: real

text \<open>
  \<open>parseFloat(x.toFixed(3))\<close>: the nearest multiple of 1/1000, a tie going away from
  zero; at \<open>1e21\<close> and beyond \<open>toFixed\<close> prints the number itself.
\<close>

definition toFixed3 :: "real \<Rightarrow> real" where
  "toFixed3 x =
     (if \<bar>x\<bar> \<ge> 10 ^ 21 then x
      else if x < 0 then - (real_of_int \<lfloor>- x * 1000 + 1 / 2\<rfloor> / 1000)
      else real_of_int \<lfloor>x * 1000 + 1 / 2\<rfloor> / 1000)"

text \<open>\<open>parseFloat(txn.amount) || 0\<close>.\<close>

fun parseAmount :: "jsnum \<Rightarrow> real" where
  "parseAmount (Fin x) = x"
| "parseAmount NaN = 0"

text \<open>The identifier \<open>`TXN-${Date.now()}-${i}`\<close>; \<open>now\<close> is the reading of the clock.\<close>

definition generatedId :: "nat \<Rightarrow> nat \<Rightarrow> string" where
  "generatedId now i = ''TXN-'' @ showNat now @ ''-'' @ showNat i"

text \<open>The blend and the hard override: the value of \<open>finalRisk\<close> when the result is built.\<close>

definition combineScores :: "real \<Rightarrow> real \<Rightarrow> real" where
  "combineScores ruleScore mlScore =
     (let finalRisk = ruleScore * 0.4 + mlScore * 0.6
      in if ruleScore \<ge> 0.9 then 1.0 else finalRisk)"

text \<open>
  The \<open>try\<close> block of the loop body of \<open>processTransactions\<close>, for the row \<open>t\<close> at index
  \<open>i\<close>: \<open>Inl\<close> is the message of the error it throws (only the scorer client throws),
  \<open>Inr\<close> the result it pushes.
\<close>

definition tryBody :: "(nat \<Rightarrow> post_outcome) \<Rightarrow> nat \<Rightarrow> nat \<Rightarrow> txn \<Rightarrow> string + scored" where
  "tryBody net now i t =
     (let ruleScore = checkHardcodedRules t
      in case fst (callMlApi net) of
           Inl err \<Rightarrow> Inl err
         | Inr mlScore \<Rightarrow>
             let finalRisk = combineScores ruleScore mlScore
             in Inr \<lparr>transaction_id = orElse (txn_id t) (generatedId now i),
                     sender_upi = orElse (sender_vpa t) (orElse (sender_upi_in t) ''unknown''),
                     receiver_upi = orElse (receiver_vpa t) (orElse (receiver_upi_in t) ''unknown''),
                     amount_out = parseAmount (amount t),
                     risk_score = toFixed3 finalRisk,
                     verdict = (if finalRisk > 0.7 then FRAUD else SAFE),
                     reason = (if finalRisk > 0.7 then ''High Risk Detected by Hybrid Engine''
                               else ''Clean''),
                     ml_score = Some mlScore,
                     rule_score = ruleScore\<rparr>)"

text \<open>The \<open>catch\<close> block: rule-based scoring only.\<close>

definition catchBody :: "nat \<Rightarrow> nat \<Rightarrow> txn \<Rightarrow> scored" where
  "catchBody now i t =
     (let ruleScore = checkHardcodedRules t
      in \<lparr>transaction_id = orElse (txn_id t) (generatedId now i),
          sender_upi = orElse (sender_vpa t) ''unknown'',
          receiver_upi = orElse (receiver_vpa t) ''unknown'',
          amount_out = parseAmount (amount t),
          risk_score = toFixed3 ruleScore,
          verdict = (if ruleScore > 0.7 then FRAUD else SAFE),
          reason = ''ML unavailable - Rule-based scoring only'',
          ml_score = None,
          rule_score = ruleScore\<rparr>)"

definition loopBody :: "(nat \<Rightarrow> post_outcome) \<Rightarrow> nat \<Rightarrow> nat \<Rightarrow> txn \<Rightarrow> scored" where
  "loopBody net now i t =
     (case tryBody net now i t of
        Inr result \<Rightarrow> result
      | Inl err \<Rightarrow> catchBody now i t)"

text \<open>
  \<open>processTransactions(transactions)\<close>: \<open>net i\<close> is the network during the scoring of
  row \<open>i\<close>, \<open>clock i\<close> the reading of the clock there.
\<close>

function processTransactions_loop ::
  "(nat \<Rightarrow> nat \<Rightarrow> post_outcome) \<Rightarrow> (nat \<Rightarrow> nat) \<Rightarrow> txn list \<Rightarrow> nat \<Rightarrow> scored list \<Rightarrow> scored list" where
  "processTransactions_loop net clock transactions i results =
     (if i < length transactions
      then processTransactions_loop net clock transactions (i + 1)
             (results @ [loopBody (net i) (clock i) i (transactions ! i)])
      else results)"
  by pat_completeness auto
termination
  by (relation "measure (\<lambda>(net, clock, transactions, i, results). length transactions - i)") auto

declare processTransactions_loop.simps [simp del]

definition processTransactions ::
  "(nat \<Rightarrow> nat \<Rightarrow> post_outcome) \<Rightarrow> (nat \<Rightarrow> nat) \<Rightarrow> txn list \<Rightarrow> scored list" where
  "processTransactions net clock transactions =
     processTransactions_loop net clock transactions 0 []"

section \<open>Rows that are not of the expected shape\<close>

text \<open>
  \<open>processTransactions\<close> scores the objects its caller passes, whatever they are. The
  CSV parser yields objects whose fields are strings or missing (\<open>Fields t\<close>, on which
  the functions below agree with those above). Three other shapes are modelled:
  \<^item> \<open>OddDescription t\<close>: an object like \<open>t\<close> but whose \<open>description\<close> holds a truthy
    value that is not a string (a number other than 0, \<open>true\<close>, an object), so that
    \<open>(txn.description || "").toLowerCase\<close> is not a function; the description of
    \<open>t\<close> itself is not read. (A falsy value there behaves as a missing field.)
  \<^item> \<open>OddSignal t msg\<close>: an object like \<open>t\<close> where one of the numeric signal fields
    that only \<open>prepareMlPayload\<close> reads (\<open>anomaly_score\<close>, \<open>sender_in_degree_7d\<close>, ...)
    holds a value whose conversion to a string throws an error with message \<open>msg\<close>
    (a Symbol, an object without prototype).
  \<^item> \<open>NoObject\<close>: \<open>null\<close> in place of the object.
  A function that can throw returns \<open>Inl\<close> with the message of the error (the
  engine's texts, the one about \<open>toLowerCase\<close> shortened).
\<close>

datatype row =
    Fields txn
  | OddDescription txn
  | OddSignal txn string
  | NoObject

fun fieldsOf :: "row \<Rightarrow> txn option" where
  "fieldsOf (Fields t) = Some t"
| "fieldsOf (OddDescription t) = Some t"
| "fieldsOf (OddSignal t msg) = Some t"
| "fieldsOf NoObject = None"

text \<open>The three rules and the aggregator, on such rows.\<close>

definition checkGrooming_row :: "row \<Rightarrow> txn list \<Rightarrow> string + rule_outcome" where
  "checkGrooming_row r history =
     (case fieldsOf r of
        None \<Rightarrow> Inl ''Cannot read properties of null (reading 'amount')''
      | Some t \<Rightarrow> Inr (checkGrooming t history))"

text \<open>\<open>(txn.description || "").toLowerCase()\<close>.\<close>

fun lowerDescription :: "row \<Rightarrow> string + string" where
  "lowerDescription (Fields t) = Inr (toLowerCase (orElse (description t) []))"
| "lowerDescription (OddDescription t) = Inl ''toLowerCase is not a function''"
| "lowerDescription (OddSignal t msg) = Inr (toLowerCase (orElse (description t) []))"
| "lowerDescription NoObject = Inl ''Cannot read properties of null (reading 'description')''"

definition checkGhostCredit_row :: "row \<Rightarrow> 'a option \<Rightarrow> string + rule_outcome" where
  "checkGhostCredit_row r lastIncomingFromBeneficiary =
     (case fieldsOf r of
        None \<Rightarrow> Inl ''Cannot read properties of null (reading 'beneficiary_type')''
      | Some t \<Rightarrow>
          if beneficiary_type t \<noteq> Some ''INDIVIDUAL'' then Inr not_triggered
          else if lastIncomingFromBeneficiary = None
          then (case lowerDescription r of
                  Inl err \<Rightarrow> Inl err
                | Inr desc \<Rightarrow>
                    if list_ex (includes_str desc) suspiciousKeywords
                    then Inr \<lparr>triggered = True, risk = 95,
                              rule_reason = Some ''Fake Payment Alert: You are refunding money you never received.''\<rparr>
                    else Inr not_triggered)
          else Inr not_triggered)"

definition checkRefundScam_row :: "row \<Rightarrow> string + rule_outcome" where
  "checkRefundScam_row r =
     (case fieldsOf r of
        None \<Rightarrow> Inl ''Cannot read properties of null (reading 'type')''
      | Some t \<Rightarrow>
          if txn_type t = Some ''COLLECT''
          then (case lowerDescription r of
                  Inl err \<Rightarrow> Inl err
                | Inr desc \<Rightarrow>
                    if list_ex (includes_str desc) refundKeywords
                    then Inr \<lparr>triggered = True, risk = 100,
                              rule_reason = Some ''Refund Scam: 'Collect' request disguised as a Refund/Prize.''\<rparr>
                    else Inr not_triggered)
          else Inr not_triggered)"

definition checkHardcodedRules_row :: "row \<Rightarrow> string + real" where
  "checkHardcodedRules_row r =
     (let totalScore = 0
      in case checkGrooming_row r [] of
           Inl err \<Rightarrow> Inl err
         | Inr grooming \<Rightarrow>
             let totalScore = (if triggered grooming then totalScore + risk grooming else totalScore)
             in case checkGhostCredit_row r (None :: unit option) of
                  Inl err \<Rightarrow> Inl err
                | Inr ghost \<Rightarrow>
                    let totalScore = (if triggered ghost then totalScore + risk ghost else totalScore)
                    in case checkRefundScam_row r of
                         Inl err \<Rightarrow> Inl err
                       | Inr refund \<Rightarrow>
                           let totalScore = (if triggered refund then totalScore + risk refund
                                             else totalScore)
                           in Inr (normalizeScore totalScore))"

text \<open>
  \<open>prepareMlPayload(txn)\<close>: whether it returns; the payload itself is left out.
\<close>

fun prepareMlPayload_row :: "row \<Rightarrow> string + unit" where
  "prepareMlPayload_row (Fields t) = Inr ()"
| "prepareMlPayload_row (OddDescription t) = Inr ()"
| "prepareMlPayload_row (OddSignal t msg) = Inl msg"
| "prepareMlPayload_row NoObject = Inl ''Cannot read properties of null (reading 'amount')''"

text \<open>
  The object built in the \<open>try\<close> block from the rule score and the scorer's
  probability, and the object built in the \<open>catch\<close> block from the rule score.
\<close>

definition tryResult :: "nat \<Rightarrow> nat \<Rightarrow> txn \<Rightarrow> real \<Rightarrow> real \<Rightarrow> scored" where
  "tryResult now i t ruleScore mlScore =
     (let finalRisk = combineScores ruleScore mlScore
      in \<lparr>transaction_id = orElse (txn_id t) (generatedId now i),
          sender_upi = orElse (sender_vpa t) (orElse (sender_upi_in t) ''unknown''),
          receiver_upi = orElse (receiver_vpa t) (orElse (receiver_upi_in t) ''unknown''),
          amount_out = parseAmount (amount t),
          risk_score = toFixed3 finalRisk,
          verdict = (if finalRisk > 0.7 then FRAUD else SAFE),
          reason = (if finalRisk > 0.7 then ''High Risk Detected by Hybrid Engine'' else ''Clean''),
          ml_score = Some mlScore,
          rule_score = ruleScore\<rparr>)"

definition catchResult :: "nat \<Rightarrow> nat \<Rightarrow> txn \<Rightarrow> real \<Rightarrow> scored" where
  "catchResult now i t ruleScore =
     \<lparr>transaction_id = orElse (txn_id t) (generatedId now i),
      sender_upi = orElse (sender_vpa t) ''unknown'',
      receiver_upi = orElse (receiver_vpa t) ''unknown'',
      amount_out = parseAmount (amount t),
      risk_score = toFixed3 ruleScore,
      verdict = (if ruleScore > 0.7 then FRAUD else SAFE),
      reason = ''ML unavailable - Rule-based scoring only'',
      ml_score = None,
      rule_score = ruleScore\<rparr>"

text \<open>
  The \<open>try\<close> block: the rules, the payload and the scorer client can each throw. The
  \<open>catch\<close> block: it logs \<open>txn.txn_id\<close> and calls the rules again, outside any
  \<open>try\<close>, so it throws when the row is no object or when the rules throw. An error
  thrown by the \<open>catch\<close> block leaves the loop.
\<close>

definition tryBody_row :: "(nat \<Rightarrow> post_outcome) \<Rightarrow> nat \<Rightarrow> nat \<Rightarrow> row \<Rightarrow> string + scored" where
  "tryBody_row net now i r =
     (case checkHardcodedRules_row r of
        Inl err \<Rightarrow> Inl err
      | Inr ruleScore \<Rightarrow>
          (case prepareMlPayload_row r of
             Inl err \<Rightarrow> Inl err
           | Inr mlPayload \<Rightarrow>
               (case fst (callMlApi net) of
                  Inl err \<Rightarrow> Inl err
                | Inr mlScore \<Rightarrow>
                    (case fieldsOf r of
                       None \<Rightarrow> Inl ''Cannot read properties of null (reading 'txn_id')''
                     | Some t \<Rightarrow> Inr (tryResult now i t ruleScore mlScore)))))"

definition catchBody_row :: "nat \<Rightarrow> nat \<Rightarrow> row \<Rightarrow> string + scored" where
  "catchBody_row now i r =
     (case fieldsOf r of
        None \<Rightarrow> Inl ''Cannot read properties of null (reading 'txn_id')''
      | Some t \<Rightarrow>
          (case checkHardcodedRules_row r of
             Inl err \<Rightarrow> Inl err
           | Inr ruleScore \<Rightarrow> Inr (catchResult now i t ruleScore)))"

definition loopBody_row :: "(nat \<Rightarrow> post_outcome) \<Rightarrow> nat \<Rightarrow> nat \<Rightarrow> row \<Rightarrow> string + scored" where
  "loopBody_row net now i r =
     (case tryBody_row net now i r of
        Inr result \<Rightarrow> Inr result
      | Inl err \<Rightarrow> catchBody_row now i r)"

text \<open>
  \<open>processTransactions(transactions)\<close> on such rows: \<open>Inr\<close> is the array it returns,
  \<open>Inl\<close> the message of the error with which it is rejected.
\<close>

function processTransactions_rows_loop ::
  "(nat \<Rightarrow> nat \<Rightarrow> post_outcome) \<Rightarrow> (nat \<Rightarrow> nat) \<Rightarrow> row list \<Rightarrow> nat \<Rightarrow> scored list
     \<Rightarrow> string + scored list" where
  "processTransactions_rows_loop net clock transactions i results =
     (if i < length transactions
      then (case loopBody_row (net i) (clock i) i (transactions ! i) of
              Inl err \<Rightarrow> Inl err
            | Inr result \<Rightarrow>
                processTransactions_rows_loop net clock transactions (i + 1) (results @ [result]))
      else Inr results)"
  by pat_completeness auto
termination
  by (relation "measure (\<lambda>(net, clock, transactions, i, results). length transactions - i)") auto

declare processTransactions_rows_loop.simps [simp del]

definition processTransactions_rows ::
  "(nat \<Rightarrow> nat \<Rightarrow> post_outcome) \<Rightarrow> (nat \<Rightarrow> nat) \<Rightarrow> row list \<Rightarrow> string + scored list" where
  "processTransactions_rows net clock transactions =
     processTransactions_rows_loop net clock transactions 0 []"

section \<open>Notions used in the statements\<close>

text \<open>
  The value that the loop body compares with 0.7 and then rounds into \<open>risk_score\<close>:
  \<open>finalRisk\<close> in the \<open>try\<close> block, \<open>ruleScore\<close> in the \<open>catch\<close> block.
\<close>

definition comparedRisk :: "(nat \<Rightarrow> post_outcome) \<Rightarrow> txn \<Rightarrow> real" where
  "comparedRisk net t =
     (case fst (callMlApi net) of
        Inr mlScore \<Rightarrow> combineScores (checkHardcodedRules t) mlScore
      | Inl err \<Rightarrow> checkHardcodedRules t)"

text \<open>
  The unit interval; a call of the scorer client that returns a probability in it (or
  throws); a result whose three scores are in it.
\<close>

definition inUnit :: "real \<Rightarrow> bool" where
  "inUnit x = (0 \<le> x \<and> x \<le> 1)"

definition scorerInRange :: "(nat \<Rightarrow> post_outcome) \<Rightarrow> bool" where
  "scorerInRange net =
     (case fst (callMlApi net) of Inr mlScore \<Rightarrow> inUnit mlScore | Inl err \<Rightarrow> True)"

definition scoresInUnit :: "scored \<Rightarrow> bool" where
  "scoresInUnit r =
     (inUnit (rule_score r)
      \<and> (case ml_score r of None \<Rightarrow> True | Some mlScore \<Rightarrow> inUnit mlScore)
      \<and> inUnit (risk_score r))"


section \<open>Sample inputs\<close>

text \<open>A row with no fields, and rows built from it.\<close>

definition blank_txn :: txn where
  "blank_txn = \<lparr>txn_id = None, sender_vpa = None, sender_upi_in = None, receiver_vpa = None,
     receiver_upi_in = None, amount = NaN, txn_type = None, beneficiary_type = None,
     description = None\<rparr>"

definition micro_txn :: txn where
  "micro_txn = blank_txn\<lparr>amount := Fin 10\<rparr>"

definition refund_to_stranger :: txn where
  "refund_to_stranger =
     blank_txn\<lparr>txn_id := Some ''T1'', amount := Fin 500,
                beneficiary_type := Some ''INDIVIDUAL'', description := Some ''Refund''\<rparr>"

definition collect_prize :: txn where
  "collect_prize =
     blank_txn\<lparr>txn_id := Some ''T2'', amount := Fin 500,
                txn_type := Some ''COLLECT'', description := Some ''You WON a prize''\<rparr>"

text \<open>Networks: every post fails; every post answers the probability \<open>p\<close>.\<close>

definition net_down :: "nat \<Rightarrow> post_outcome" where
  "net_down a = Rejected ''timeout of 5000ms exceeded''"

definition net_answers :: "real \<Rightarrow> nat \<Rightarrow> post_outcome" where
  "net_answers p a = Resolved (Some (Fin p))"

text \<open>
  A batch of three rows, the network being down during the second one, and a clock.
\<close>

definition net_second_down :: "nat \<Rightarrow> nat \<Rightarrow> post_outcome" where
  "net_second_down i = (if i = 1 then net_down else net_answers (1 / 2))"

definition clock_sample :: "nat \<Rightarrow> nat" where
  "clock_sample i = 1700000000000 + i"

definition sample_batch :: "txn list" where
  "sample_batch = [blank_txn, refund_to_stranger, collect_prize]"





section \<open>Properties of the rules and of the aggregator\<close>


lemma checkGrooming_no_history: "checkGrooming t [] = not_triggered"
  by (simp add: checkGrooming_def)

lemma checkGrooming_below_1000:
  "js_lt (amount t) (Fin 1000) \<Longrightarrow> checkGrooming t history = not_triggered"
  by (simp add: checkGrooming_def)

lemma checkGhostCredit_risk:
  "triggered (checkGhostCredit t l) \<Longrightarrow> risk (checkGhostCredit t l) = 95"
  by (auto simp: checkGhostCredit_def not_triggered_def split: if_splits)

lemma checkRefundScam_risk:
  "triggered (checkRefundScam t) \<Longrightarrow> risk (checkRefundScam t) = 100"
  by (auto simp: checkRefundScam_def not_triggered_def split: if_splits)

lemma checkHardcodedRules_by_rule:
  "checkHardcodedRules t =
     (if triggered (checkRefundScam t) then 1
      else if triggered (checkGhostCredit t (None :: unit option)) then 19 / 20
      else 0)"
  by (simp add: checkHardcodedRules_def Let_def checkGrooming_no_history not_triggered_def
      checkGhostCredit_risk checkRefundScam_risk normalizeScore_def)

lemma checkHardcodedRules_values: "checkHardcodedRules t \<in> {0, 19 / 20, 1}"
  by (simp add: checkHardcodedRules_by_rule)

lemma normalizeScore_unit: "0 \<le> normalizeScore n \<and> normalizeScore n \<le> 1"
  by (simp add: normalizeScore_def)

text \<open>
  C5 (grooming rule at the threshold). The rule is meant to look at the history only for
  amounts above 1000 and so never to trigger for an amount of at most 1000. The early
  return tests \<open>amount < 1000\<close>: for an amount of exactly 1000 and a history with three
  micro-transactions the rule triggers with contribution 75.
\<close>

theorem checkGrooming_at_1000:
  "checkGrooming (blank_txn\<lparr>amount := Fin 1000\<rparr>) [micro_txn, micro_txn, micro_txn]
     = \<lparr>triggered = True, risk = 75,
        rule_reason = Some ''Grooming Detected: 3+ micro-transactions found before high value transfer.''\<rparr>"
  by (simp add: checkGrooming_def blank_txn_def micro_txn_def)

text \<open>
  C7 (rule aggregator). The aggregator returns the sum of the contributions of the
  triggered rules (a rule that did not trigger adds 0), divided by 100 and clamped to at
  most 1; it is a total function and its value is always in [0,1]; a sum past 100 is
  clamped, as 75 + 95 + 100 = 270 is to 1.
\<close>

theorem checkHardcodedRules_sum_clamped:
  "checkHardcodedRules t =
     min (real (sum_list (map (\<lambda>outcome. if triggered outcome then risk outcome else 0)
            [checkGrooming t [], checkGhostCredit t (None :: unit option), checkRefundScam t])) / 100) 1
   \<and> 0 \<le> checkHardcodedRules t \<and> checkHardcodedRules t \<le> 1
   \<and> (\<forall>totalScore. 0 \<le> normalizeScore totalScore \<and> normalizeScore totalScore \<le> 1)
   \<and> normalizeScore (75 + 95 + 100) = 1"
proof -
  have "checkHardcodedRules t =
     min (real (sum_list (map (\<lambda>outcome. if triggered outcome then risk outcome else 0)
            [checkGrooming t [], checkGhostCredit t (None :: unit option), checkRefundScam t])) / 100) 1"
    by (simp add: checkHardcodedRules_def Let_def normalizeScore_def add.assoc)
  moreover have "0 \<le> checkHardcodedRules t \<and> checkHardcodedRules t \<le> 1"
    using checkHardcodedRules_values [of t] by auto
  moreover have "normalizeScore (75 + 95 + 100) = 1"
    by (simp add: normalizeScore_def)
  ultimately show ?thesis by (simp add: normalizeScore_unit)
qed

lemma rules_refund_to_stranger: "checkHardcodedRules refund_to_stranger = 19 / 20"
  by (simp add: checkHardcodedRules_by_rule refund_to_stranger_def blank_txn_def
      checkRefundScam_def checkGhostCredit_def not_triggered_def toLowerCase_def toLowerChar_def
      suspiciousKeywords_def)

lemma rules_collect_prize: "checkHardcodedRules collect_prize = 1"
  by (simp add: checkHardcodedRules_by_rule collect_prize_def blank_txn_def
      checkRefundScam_def not_triggered_def toLowerCase_def toLowerChar_def refundKeywords_def)

lemma rules_blank: "checkHardcodedRules blank_txn = 0"
  by (simp add: checkHardcodedRules_by_rule blank_txn_def
      checkRefundScam_def checkGhostCredit_def not_triggered_def)

text \<open>
  C10 (no history in the aggregator). The aggregator calls the grooming rule with the
  empty history, so the rule never triggers there, and the ghost-credit rule with no
  prior incoming payment: its value is 1 when the refund-scam rule triggers, else 0.95
  when the ghost-credit rule does, else 0. So it is always one of 0, 0.95 and 1, and
  each of the three occurs.
\<close>

theorem checkHardcodedRules_without_history:
  "checkGrooming t [] = not_triggered
   \<and> checkHardcodedRules t =
       (if triggered (checkRefundScam t) then 1
        else if triggered (checkGhostCredit t (None :: unit option)) then 19 / 20
        else 0)
   \<and> checkHardcodedRules t \<in> {0, 19 / 20, 1}
   \<and> checkHardcodedRules blank_txn = 0
   \<and> checkHardcodedRules refund_to_stranger = 19 / 20
   \<and> checkHardcodedRules collect_prize = 1"
proof -
  note facts = checkGrooming_no_history [of t] checkHardcodedRules_by_rule [of t]
    checkHardcodedRules_values [of t] rules_blank rules_refund_to_stranger rules_collect_prize
  show ?thesis
    by (intro conjI) (fact facts)+
qed

section \<open>Properties of the scorer client\<close>

lemma showNat_3: "showNat 3 = ''3''"
  by (subst showNat.simps) simp

lemma callMlApi_loop_posts:
  "attempt \<le> retries \<Longrightarrow>
   length (filter isPost (snd (callMlApi_loop net retries attempt))) \<le> retries + 1 - attempt"
proof (induction net retries attempt rule: callMlApi_loop.induct)
  case (1 net retries attempt)
  show ?case
  proof (cases "net attempt")
    case (Resolved p)
    then show ?thesis
      using "1.prems" by (subst callMlApi_loop.simps) simp
  next
    case (Rejected msg)
    show ?thesis
    proof (cases "attempt \<ge> retries")
      case True
      then show ?thesis
        using Rejected "1.prems" by (subst callMlApi_loop.simps) simp
    next
      case False
      then have "length (filter isPost (snd (callMlApi_loop net retries (attempt + 1))))
                   \<le> retries + 1 - (attempt + 1)"
        using "1.IH" [OF Rejected False] by simp
      then show ?thesis
        using Rejected False
        by (subst callMlApi_loop.simps) (simp add: split_beta)
    qed
  qed
qed

lemma callMlApi_loop_all_rejected:
  "attempt \<le> retries \<Longrightarrow> \<forall>a. attempt \<le> a \<and> a \<le> retries \<longrightarrow> (\<exists>msg. net a = Rejected msg) \<Longrightarrow>
   \<exists>msg. net retries = Rejected msg
     \<and> fst (callMlApi_loop net retries attempt)
         = Inl (''ML API failed after '' @ showNat retries @ '' attempts: '' @ msg)"
proof (induction net retries attempt rule: callMlApi_loop.induct)
  case (1 net retries attempt)
  from "1.prems" obtain msg where rej: "net attempt = Rejected msg" by auto
  show ?case
  proof (cases "attempt \<ge> retries")
    case True
    with "1.prems" have "attempt = retries" by simp
    then show ?thesis
      using rej by (subst callMlApi_loop.simps) simp
  next
    case False
    have "\<exists>msg. net retries = Rejected msg
       \<and> fst (callMlApi_loop net retries (attempt + 1))
           = Inl (''ML API failed after '' @ showNat retries @ '' attempts: '' @ msg)"
      using "1.IH" [OF rej False] "1.prems" False by simp
    then show ?thesis
      using rej False by (subst callMlApi_loop.simps) (simp add: split_beta)
  qed
qed

lemma callMlApi_unfolded:
  "callMlApi net =
     (case net 1 of
        Resolved p \<Rightarrow> (Inr (orZero p), [Post 1])
      | Rejected e1 \<Rightarrow>
          (case net 2 of
             Resolved p \<Rightarrow> (Inr (orZero p), [Post 1, Sleep 1000, Post 2])
           | Rejected e2 \<Rightarrow>
               (case net 3 of
                  Resolved p \<Rightarrow>
                    (Inr (orZero p), [Post 1, Sleep 1000, Post 2, Sleep 2000, Post 3])
                | Rejected e3 \<Rightarrow>
                    (Inl (''ML API failed after 3 attempts: '' @ e3),
                     [Post 1, Sleep 1000, Post 2, Sleep 2000, Post 3]))))"
proof -
  have l3: "callMlApi_loop net 3 3 =
      (case net 3 of Resolved p \<Rightarrow> (Inr (orZero p), [Post 3])
       | Rejected e3 \<Rightarrow> (Inl (''ML API failed after 3 attempts: '' @ e3), [Post 3]))"
    by (subst callMlApi_loop.simps) (simp add: showNat_3 split: post_outcome.split)
  have l2: "callMlApi_loop net 3 2 =
      (case net 2 of Resolved p \<Rightarrow> (Inr (orZero p), [Post 2])
       | Rejected e2 \<Rightarrow> (fst (callMlApi_loop net 3 3),
                          Post 2 # Sleep 2000 # snd (callMlApi_loop net 3 3)))"
    by (subst callMlApi_loop.simps) (simp add: split_beta backoffDelay_def split: post_outcome.split)
  have l1: "callMlApi_loop net 3 1 =
      (case net 1 of Resolved p \<Rightarrow> (Inr (orZero p), [Post 1])
       | Rejected e1 \<Rightarrow> (fst (callMlApi_loop net 3 2),
                          Post 1 # Sleep 1000 # snd (callMlApi_loop net 3 2)))"
    by (subst callMlApi_loop.simps)
      (simp add: split_beta backoffDelay_def flip: numeral_2_eq_2 split: post_outcome.split)
  show ?thesis
    unfolding callMlApi_def l1 l2 l3 by (simp split: post_outcome.split)
qed

text \<open>
  C8 (retry policy). A call of the scorer client posts at most 3 times. After a failed
  first attempt it sleeps 1000 ms, after a failed second attempt 2000 ms, the delay after
  attempt \<open>a\<close> being \<open>min (1000 * 2 ^ (a - 1)) 5000\<close>; when the third attempt fails it
  throws an error whose message carries the message of that last failure, and posts no
  more. A successful attempt ends the call with the probability of the response.
\<close>

theorem callMlApi_retry_policy:
  "length (filter isPost (snd (callMlApi net))) \<le> 3
   \<and> callMlApi net =
       (case net 1 of
          Resolved p \<Rightarrow> (Inr (orZero p), [Post 1])
        | Rejected e1 \<Rightarrow>
            (case net 2 of
               Resolved p \<Rightarrow> (Inr (orZero p), [Post 1, Sleep 1000, Post 2])
             | Rejected e2 \<Rightarrow>
                 (case net 3 of
                    Resolved p \<Rightarrow>
                      (Inr (orZero p), [Post 1, Sleep 1000, Post 2, Sleep 2000, Post 3])
                  | Rejected e3 \<Rightarrow>
                      (Inl (''ML API failed after 3 attempts: '' @ e3),
                       [Post 1, Sleep 1000, Post 2, Sleep 2000, Post 3]))))
   \<and> (\<forall>attempt. backoffDelay attempt = min (1000 * 2 ^ (attempt - 1)) 5000)
   \<and> backoffDelay 1 = 1000 \<and> backoffDelay 2 = 2000"
proof -
  have "length (filter isPost (snd (callMlApi net))) \<le> 3"
    using callMlApi_loop_posts [of 1 3 net] by (simp add: callMlApi_def)
  moreover have "\<forall>attempt. backoffDelay attempt = min (1000 * 2 ^ (attempt - 1)) 5000"
    by (simp add: backoffDelay_def)
  moreover have "backoffDelay 1 = 1000 \<and> backoffDelay 2 = 2000"
    by (simp add: backoffDelay_def)
  ultimately show ?thesis
    using callMlApi_unfolded [of net] by blast
qed

lemma callMlApi_net_down:
  "callMlApi net_down =
     (Inl ''ML API failed after 3 attempts: timeout of 5000ms exceeded'',
      [Post 1, Sleep 1000, Post 2, Sleep 2000, Post 3])"
  by (simp add: callMlApi_unfolded net_down_def)

section \<open>Properties of the hybrid scoring\<close>

lemma toFixed3_0: "toFixed3 0 = 0" by (simp add: toFixed3_def)
lemma toFixed3_1: "toFixed3 1 = 1" by (simp add: toFixed3_def)
lemma toFixed3_095: "toFixed3 (19 / 20) = 19 / 20" by (simp add: toFixed3_def)

lemma toFixed3_rule_score: "toFixed3 (checkHardcodedRules t) = checkHardcodedRules t"
  by (simp add: checkHardcodedRules_by_rule toFixed3_0 toFixed3_1 toFixed3_095)

lemma toFixed3_bounds:
  assumes "0 \<le> x" "x \<le> real_of_int n / 1000"
  shows "0 \<le> toFixed3 x \<and> toFixed3 x \<le> real_of_int n / 1000"
proof -
  show ?thesis
  proof (cases "\<bar>x\<bar> \<ge> 10 ^ 21")
    case True
    then show ?thesis using assms by (simp add: toFixed3_def)
  next
    case False
    have "x * 1000 + 1 / 2 < real_of_int n + 1" using assms by simp
    then have "\<lfloor>x * 1000 + 1 / 2\<rfloor> \<le> n" by (simp add: floor_le_iff)
    moreover have "0 \<le> \<lfloor>x * 1000 + 1 / 2\<rfloor>" using assms by simp
    ultimately show ?thesis using False assms by (simp add: toFixed3_def)
  qed
qed

lemma toFixed3_unit: "inUnit x \<Longrightarrow> inUnit (toFixed3 x)"
  using toFixed3_bounds [of x 1000] by (simp add: inUnit_def)

lemma loopBody_returned:
  "fst (callMlApi net) = Inr mlScore \<Longrightarrow>
   loopBody net now i t =
     \<lparr>transaction_id = orElse (txn_id t) (generatedId now i),
      sender_upi = orElse (sender_vpa t) (orElse (sender_upi_in t) ''unknown''),
      receiver_upi = orElse (receiver_vpa t) (orElse (receiver_upi_in t) ''unknown''),
      amount_out = parseAmount (amount t),
      risk_score = toFixed3 (combineScores (checkHardcodedRules t) mlScore),
      verdict = (if combineScores (checkHardcodedRules t) mlScore > 0.7 then FRAUD else SAFE),
      reason = (if combineScores (checkHardcodedRules t) mlScore > 0.7
                then ''High Risk Detected by Hybrid Engine'' else ''Clean''),
      ml_score = Some mlScore,
      rule_score = checkHardcodedRules t\<rparr>"
  by (simp add: loopBody_def tryBody_def Let_def)

lemma loopBody_thrown:
  "fst (callMlApi net) = Inl err \<Longrightarrow> loopBody net now i t = catchBody now i t"
  by (simp add: loopBody_def tryBody_def Let_def)

lemma catchBody_fields:
  "risk_score (catchBody now i t) = checkHardcodedRules t"
  "rule_score (catchBody now i t) = checkHardcodedRules t"
  "ml_score (catchBody now i t) = None"
  "verdict (catchBody now i t) = (if checkHardcodedRules t > 0.7 then FRAUD else SAFE)"
  "reason (catchBody now i t) = ''ML unavailable - Rule-based scoring only''"
  "transaction_id (catchBody now i t) = orElse (txn_id t) (generatedId now i)"
  by (simp_all add: catchBody_def Let_def toFixed3_rule_score)

lemma loopBody_compared:
  "verdict (loopBody net now i t) = (if comparedRisk net t > 0.7 then FRAUD else SAFE)
   \<and> risk_score (loopBody net now i t) = toFixed3 (comparedRisk net t)"
proof (cases "fst (callMlApi net)")
  case (Inl err)
  then show ?thesis
    by (simp add: loopBody_thrown catchBody_fields comparedRisk_def toFixed3_rule_score)
next
  case (Inr mlScore)
  then show ?thesis
    by (simp add: loopBody_returned comparedRisk_def)
qed

lemma comparedRisk_in_range:
  assumes "scorerInRange net"
  shows "(0 \<le> comparedRisk net t \<and> comparedRisk net t \<le> 6 / 10) \<or> comparedRisk net t = 19 / 20 \<or> comparedRisk net t = 1"
proof (cases "fst (callMlApi net)")
  case (Inl err)
  then show ?thesis
    using checkHardcodedRules_values [of t] by (auto simp: comparedRisk_def)
next
  case (Inr mlScore)
  then have "0 \<le> mlScore" "mlScore \<le> 1"
    using assms by (simp_all add: scorerInRange_def inUnit_def)
  then show ?thesis
    using Inr checkHardcodedRules_values [of t]
    by (auto simp: comparedRisk_def combineScores_def)
qed



lemma callMlApi_net_answers: "callMlApi (net_answers p) = (Inr p, [Post 1])"
  by (simp add: callMlApi_unfolded net_answers_def)

lemma scorerInRange_net_down: "scorerInRange net_down"
  by (simp add: scorerInRange_def callMlApi_net_down)


lemma loopBody_net_answers:
  "loopBody (net_answers p) now i t =
     \<lparr>transaction_id = orElse (txn_id t) (generatedId now i),
      sender_upi = orElse (sender_vpa t) (orElse (sender_upi_in t) ''unknown''),
      receiver_upi = orElse (receiver_vpa t) (orElse (receiver_upi_in t) ''unknown''),
      amount_out = parseAmount (amount t),
      risk_score = toFixed3 (combineScores (checkHardcodedRules t) p),
      verdict = (if combineScores (checkHardcodedRules t) p > 0.7 then FRAUD else SAFE),
      reason = (if combineScores (checkHardcodedRules t) p > 0.7
                then ''High Risk Detected by Hybrid Engine'' else ''Clean''),
      ml_score = Some p,
      rule_score = checkHardcodedRules t\<rparr>"
  by (rule loopBody_returned) (simp add: callMlApi_net_answers)

lemma loopBody_net_down: "loopBody net_down now i t = catchBody now i t"
  by (rule loopBody_thrown) (simp add: callMlApi_net_down)

lemma showNat_0: "showNat 0 = ''0''"
  by (subst showNat.simps) simp

lemma showNat_numeral:
  "showNat (numeral k) =
     (if (numeral k :: nat) < 10 then [''0123456789'' ! numeral k]
      else showNat (numeral k div 10) @ [''0123456789'' ! (numeral k mod 10)])"
  by (rule showNat.simps)

lemma showNat_1: "showNat (Suc 0) = ''1''"
  by (subst showNat.simps) simp




text \<open>
  C2, as amended (hard override). For a row whose rule score is at least 0.9 the verdict
  is FRAUD whatever the scorer does. When the scorer returned a probability, the recorded
  \<open>risk_score\<close> is 1; when the scorer failed, \<open>ml_score\<close> is absent and the recorded
  \<open>risk_score\<close> is the rule score itself.
\<close>

theorem hard_override:
  "checkHardcodedRules t \<ge> 0.9 \<Longrightarrow>
   verdict (loopBody net now i t) = FRAUD
   \<and> rule_score (loopBody net now i t) = checkHardcodedRules t
   \<and> (case fst (callMlApi net) of
         Inr mlScore \<Rightarrow> risk_score (loopBody net now i t) = 1
                        \<and> ml_score (loopBody net now i t) = Some mlScore
       | Inl err \<Rightarrow> risk_score (loopBody net now i t) = checkHardcodedRules t
                    \<and> ml_score (loopBody net now i t) = None)"
proof (cases "fst (callMlApi net)")
  case (Inl err)
  assume "checkHardcodedRules t \<ge> 0.9"
  then show ?thesis
    using Inl by (simp add: loopBody_thrown catchBody_fields)
next
  case (Inr mlScore)
  assume "checkHardcodedRules t \<ge> 0.9"
  then show ?thesis
    using Inr by (simp add: loopBody_returned combineScores_def toFixed3_1)
qed

text \<open>An instance: rule score 1 against a scorer answering 0.\<close>

theorem hard_override_witness:
  "checkHardcodedRules collect_prize \<ge> 0.9
   \<and> verdict (loopBody (net_answers 0) 0 0 collect_prize) = FRAUD
   \<and> risk_score (loopBody (net_answers 0) 0 0 collect_prize) = 1
   \<and> ml_score (loopBody (net_answers 0) 0 0 collect_prize) = Some 0"
  using hard_override [of collect_prize "net_answers 0" 0 0]
  by (simp add: rules_collect_prize callMlApi_net_answers)

text \<open>
  C2 as stated fails when the scorer is down: a refund to an individual who never paid
  has rule score 0.95, and the result records \<open>risk_score\<close> 0.95, not 1.
\<close>

theorem fallback_keeps_rule_score_0_95:
  "checkHardcodedRules refund_to_stranger \<ge> 0.9
   \<and> fst (callMlApi net_down) = Inl ''ML API failed after 3 attempts: timeout of 5000ms exceeded''
   \<and> rule_score (loopBody net_down 0 0 refund_to_stranger) = 0.95
   \<and> ml_score (loopBody net_down 0 0 refund_to_stranger) = None
   \<and> risk_score (loopBody net_down 0 0 refund_to_stranger) = 0.95
   \<and> risk_score (loopBody net_down 0 0 refund_to_stranger) \<noteq> 1
   \<and> verdict (loopBody net_down 0 0 refund_to_stranger) = FRAUD"
  by (simp add: loopBody_net_down callMlApi_net_down catchBody_fields rules_refund_to_stranger)

section \<open>Properties of the batch\<close>

lemma processTransactions_loop_map:
  "processTransactions_loop net clock transactions i results =
     results @ map (\<lambda>j. loopBody (net j) (clock j) j (transactions ! j)) [i..<length transactions]"
proof (induction net clock transactions i results rule: processTransactions_loop.induct)
  case (1 net clock transactions i results)
  show ?case
  proof (cases "i < length transactions")
    case True
    then show ?thesis
      using "1.IH" [OF True]
      by (subst processTransactions_loop.simps) (simp add: upt_conv_Cons)
  next
    case False
    then show ?thesis
      by (subst processTransactions_loop.simps) simp
  qed
qed

lemma processTransactions_map:
  "processTransactions net clock transactions =
     map (\<lambda>j. loopBody (net j) (clock j) j (transactions ! j)) [0..<length transactions]"
  by (simp add: processTransactions_def processTransactions_loop_map)

lemma processTransactions_length:
  "length (processTransactions net clock transactions) = length transactions"
  by (simp add: processTransactions_map)

lemma processTransactions_nth:
  "k < length transactions \<Longrightarrow>
   processTransactions net clock transactions ! k = loopBody (net k) (clock k) k (transactions ! k)"
  by (simp add: processTransactions_map)

lemma sample_batch_results:
  "processTransactions net clock sample_batch =
     [loopBody (net 0) (clock 0) 0 blank_txn,
      loopBody (net 1) (clock 1) 1 refund_to_stranger,
      loopBody (net 2) (clock 2) 2 collect_prize]"
  by (simp add: processTransactions_map sample_batch_def upt_rec numeral_2_eq_2)


lemma callMlApi_three_rejections:
  "net 1 = Rejected e1 \<Longrightarrow> net 2 = Rejected e2 \<Longrightarrow> net 3 = Rejected e3 \<Longrightarrow>
   callMlApi net = (Inl (''ML API failed after 3 attempts: '' @ e3),
                    [Post 1, Sleep 1000, Post 2, Sleep 2000, Post 3])"
  by (simp add: callMlApi_unfolded)

text \<open>
  C3, as amended (scorer failure). When all three attempts for row \<open>k\<close> fail, the batch
  still has one result per row, and result \<open>k\<close> has \<open>ml_score\<close> absent, \<open>risk_score\<close>
  equal to the rule score, and the reason "ML unavailable - Rule-based scoring only".
\<close>

theorem scorer_failure_fallback:
  assumes "k < length transactions"
    and "net k 1 = Rejected e1" and "net k 2 = Rejected e2" and "net k 3 = Rejected e3"
  shows "length (processTransactions net clock transactions) = length transactions
     \<and> ml_score (processTransactions net clock transactions ! k) = None
     \<and> rule_score (processTransactions net clock transactions ! k)
         = checkHardcodedRules (transactions ! k)
     \<and> risk_score (processTransactions net clock transactions ! k)
         = rule_score (processTransactions net clock transactions ! k)
     \<and> reason (processTransactions net clock transactions ! k)
         = ''ML unavailable - Rule-based scoring only''"
proof -
  have "fst (callMlApi (net k)) = Inl (''ML API failed after 3 attempts: '' @ e3)"
    using assms(2-4) by (simp add: callMlApi_three_rejections)
  then have "processTransactions net clock transactions ! k
               = catchBody (clock k) k (transactions ! k)"
    using assms(1) by (simp add: processTransactions_nth loopBody_thrown)
  then show ?thesis
    by (simp add: catchBody_fields processTransactions_length)
qed

text \<open>An instance: the sample batch, whose second row meets a network that is down.\<close>

theorem scorer_failure_fallback_witness:
  "length (processTransactions net_second_down clock_sample sample_batch) = 3
   \<and> ml_score (processTransactions net_second_down clock_sample sample_batch ! 1) = None
   \<and> rule_score (processTransactions net_second_down clock_sample sample_batch ! 1) = 0.95
   \<and> risk_score (processTransactions net_second_down clock_sample sample_batch ! 1) = 0.95
   \<and> reason (processTransactions net_second_down clock_sample sample_batch ! 1)
       = ''ML unavailable - Rule-based scoring only''"
proof -
  have len: "(1::nat) < length sample_batch" by (simp add: sample_batch_def)
  have rej: "net_second_down 1 1 = Rejected ''timeout of 5000ms exceeded''"
    "net_second_down 1 2 = Rejected ''timeout of 5000ms exceeded''"
    "net_second_down 1 3 = Rejected ''timeout of 5000ms exceeded''"
    by (simp_all add: net_second_down_def net_down_def)
  have nth: "sample_batch ! 1 = refund_to_stranger" by (simp add: sample_batch_def)
  show ?thesis
    using scorer_failure_fallback
            [where k = 1 and net = net_second_down and transactions = sample_batch
               and clock = clock_sample, OF len rej]
    by (simp add: nth rules_refund_to_stranger sample_batch_def)
qed

text \<open>
  C3 as stated fails on the reason: with the network down the result carries the text
  of the \<open>catch\<close> block, not "scorer unavailable, rule-based fallback".
\<close>

theorem fallback_reason_text:
  "callMlApi net_down =
     (Inl ''ML API failed after 3 attempts: timeout of 5000ms exceeded'',
      [Post 1, Sleep 1000, Post 2, Sleep 2000, Post 3])
   \<and> reason (loopBody net_down 0 0 blank_txn) = ''ML unavailable - Rule-based scoring only''
   \<and> reason (loopBody net_down 0 0 blank_txn) \<noteq> ''scorer unavailable, rule-based fallback''"
  by (simp add: callMlApi_net_down loopBody_net_down catchBody_fields)

text \<open>
  On rows whose fields are strings or missing the functions on rows are those above.
\<close>

lemma checkHardcodedRules_row_Fields [simp]:
  "checkHardcodedRules_row (Fields t) = Inr (checkHardcodedRules t)"
  by (simp add: checkHardcodedRules_row_def checkHardcodedRules_def checkGrooming_row_def
      checkGhostCredit_row_def checkGhostCredit_def checkRefundScam_row_def checkRefundScam_def
      Let_def)

lemma checkHardcodedRules_row_OddSignal [simp]:
  "checkHardcodedRules_row (OddSignal t msg) = Inr (checkHardcodedRules t)"
  by (simp add: checkHardcodedRules_row_def checkHardcodedRules_def checkGrooming_row_def
      checkGhostCredit_row_def checkGhostCredit_def checkRefundScam_row_def checkRefundScam_def
      Let_def)

lemma checkHardcodedRules_row_NoObject [simp]:
  "checkHardcodedRules_row NoObject = Inl ''Cannot read properties of null (reading 'amount')''"
  by (simp add: checkHardcodedRules_row_def checkGrooming_row_def)

lemma checkHardcodedRules_row_OddDescription [simp]:
  "checkHardcodedRules_row (OddDescription t) =
     (if beneficiary_type t = Some ''INDIVIDUAL'' \<or> txn_type t = Some ''COLLECT''
      then Inl ''toLowerCase is not a function'' else Inr 0)"
  by (simp add: checkHardcodedRules_row_def checkGrooming_row_def checkGrooming_no_history
      checkGhostCredit_row_def checkRefundScam_row_def not_triggered_def normalizeScore_def)




lemma tryBody_row_Fields: "tryBody_row net now i (Fields t) = tryBody net now i t"
  by (simp add: tryBody_row_def tryBody_def tryResult_def Let_def split: sum.split)

lemma catchBody_row_Fields: "catchBody_row now i (Fields t) = Inr (catchBody now i t)"
  by (simp add: catchBody_row_def catchBody_def catchResult_def Let_def)

lemma loopBody_row_Fields: "loopBody_row net now i (Fields t) = Inr (loopBody net now i t)"
  by (simp add: loopBody_row_def loopBody_def tryBody_row_Fields catchBody_row_Fields
      split: sum.split)




lemma processTransactions_rows_loop_returns:
  assumes "\<forall>j. i \<le> j \<and> j < length rows \<longrightarrow> loopBody_row (net j) (clock j) j (rows ! j) = Inr (f j)"
  shows "processTransactions_rows_loop net clock rows i results
           = Inr (results @ map f [i..<length rows])"
  using assms
proof (induction net clock rows i results rule: processTransactions_rows_loop.induct)
  case (1 net clock rows i results)
  show ?case
  proof (cases "i < length rows")
    case True
    have here: "loopBody_row (net i) (clock i) i (rows ! i) = Inr (f i)"
      using "1.prems" True by simp
    have "processTransactions_rows_loop net clock rows (i + 1) (results @ [f i])
            = Inr ((results @ [f i]) @ map f [i + 1..<length rows])"
      using "1.IH" [OF True here] "1.prems" by simp
    then show ?thesis
      using True here
      by (subst processTransactions_rows_loop.simps) (simp add: upt_conv_Cons)
  next
    case False
    then show ?thesis
      by (subst processTransactions_rows_loop.simps) simp
  qed
qed



lemma processTransactions_rows_Fields:
  "processTransactions_rows net clock (map Fields transactions)
     = Inr (processTransactions net clock transactions)"
  unfolding processTransactions_rows_def
  using processTransactions_rows_loop_returns
    [of 0 "map Fields transactions" net clock
        "\<lambda>j. loopBody (net j) (clock j) j (transactions ! j)" "[]"]
  by (simp add: loopBody_row_Fields processTransactions_map)










text \<open>
  When the scorer call failed or returned a probability in [0,1], the three scores of
  the result are in [0,1].
\<close>

lemma loopBody_scoresInUnit:
  assumes "scorerInRange net"
  shows "scoresInUnit (loopBody net now i t)"
proof -
  have rule: "inUnit (checkHardcodedRules t)"
    using checkHardcodedRules_values [of t] by (auto simp: inUnit_def)
  have "inUnit (comparedRisk net t)"
    using comparedRisk_in_range [OF assms, of t] by (auto simp: inUnit_def)
  then have risk: "inUnit (risk_score (loopBody net now i t))"
    by (simp add: loopBody_compared toFixed3_unit)
  show ?thesis
  proof (cases "fst (callMlApi net)")
    case (Inl err)
    then show ?thesis
      using rule risk by (simp add: scoresInUnit_def loopBody_thrown catchBody_fields)
  next
    case (Inr mlScore)
    then have "inUnit mlScore" using assms by (simp add: scorerInRange_def)
    then show ?thesis
      using rule risk Inr by (simp add: scoresInUnit_def loopBody_returned)
  qed
qed

lemma loopBody_rule_score: "rule_score (loopBody net now i t) = checkHardcodedRules t"
  by (cases "fst (callMlApi net)") (simp_all add: loopBody_thrown loopBody_returned catchBody_fields)

text \<open>
  C6 (scores in the unit interval). Every score of a result is meant to lie in [0,1],
  and the scorer client is documented to return a probability in that range. The client
  returns the \<open>fraud_probability\<close> of the response unchecked: when the scorer answers 2,
  the result records \<open>ml_score\<close> 2 and \<open>risk_score\<close> 1.2.
\<close>

theorem scorer_answer_2_leaves_unit_interval:
  "ml_score (loopBody (net_answers 2) 0 0 blank_txn) = Some 2
   \<and> risk_score (loopBody (net_answers 2) 0 0 blank_txn) = 1.2
   \<and> \<not> scoresInUnit (loopBody (net_answers 2) 0 0 blank_txn)"
  by (simp add: loopBody_net_answers rules_blank combineScores_def toFixed3_def scoresInUnit_def
      inUnit_def)

text \<open>The generated identifier determines the clock reading and the index.\<close>

lemma digit_chars_distinct: "distinct ''0123456789''"
  by simp

lemma digit_char_inj:
  "a < 10 \<Longrightarrow> b < 10 \<Longrightarrow> (''0123456789'' ! a = ''0123456789'' ! b) = (a = b)"
  using nth_eq_iff_index_eq [OF digit_chars_distinct, of a b] by simp

lemma showNat_nonempty: "showNat n \<noteq> []"
  by (subst showNat.simps) simp

lemma showNat_digits: "set (showNat n) \<subseteq> set ''0123456789''"
proof (induction n rule: showNat.induct)
  case (1 n)
  show ?case
  proof (cases "n < 10")
    case True
    then have "''0123456789'' ! n \<in> set ''0123456789''"
      by (intro nth_mem) simp
    then show ?thesis
      using True by (subst showNat.simps) simp
  next
    case False
    have "''0123456789'' ! (n mod 10) \<in> set ''0123456789''"
      by (intro nth_mem) simp
    then show ?thesis
      using False "1.IH" [OF False] by (subst showNat.simps) simp
  qed
qed

lemma showNat_no_dash: "CHR ''-'' \<notin> set (showNat n)"
  using showNat_digits [of n] by auto

lemma showNat_inj: "showNat n = showNat m \<Longrightarrow> n = m"
proof (induction n arbitrary: m rule: showNat.induct)
  case (1 n)
  show ?case
  proof (cases "n < 10")
    case small_n: True
    show ?thesis
    proof (cases "m < 10")
      case True
      then show ?thesis
        using "1.prems" small_n
        by (simp add: showNat.simps [of n] showNat.simps [of m] digit_char_inj)
    next
      case False
      then have "length (showNat m) \<ge> 2"
        using showNat_nonempty [of "m div 10"]
        by (subst showNat.simps) (simp add: Suc_le_eq)
      moreover have "length (showNat n) = 1"
        using small_n by (subst showNat.simps) simp
      ultimately show ?thesis using "1.prems" by simp
    qed
  next
    case big_n: False
    show ?thesis
    proof (cases "m < 10")
      case True
      then have "length (showNat m) = 1"
        by (subst showNat.simps) simp
      moreover have "length (showNat n) \<ge> 2"
        using big_n showNat_nonempty [of "n div 10"]
        by (subst showNat.simps) (simp add: Suc_le_eq)
      ultimately show ?thesis using "1.prems" by simp
    next
      case False
      have "showNat (n div 10) @ [''0123456789'' ! (n mod 10)]
              = showNat (m div 10) @ [''0123456789'' ! (m mod 10)]"
        using "1.prems" big_n False
        by (simp add: showNat.simps [of n] showNat.simps [of m])
      then have "showNat (n div 10) = showNat (m div 10)"
        and "''0123456789'' ! (n mod 10) = ''0123456789'' ! (m mod 10)"
        by simp_all
      then have "n div 10 = m div 10" and "n mod 10 = m mod 10"
        using "1.IH" [OF big_n] by (simp_all add: digit_char_inj)
      then show ?thesis
        by (metis div_mult_mod_eq)
    qed
  qed
qed

lemma generatedId_inj:
  "generatedId now i = generatedId now' i' \<Longrightarrow> now = now' \<and> i = i'"
proof -
  assume "generatedId now i = generatedId now' i'"
  then have "showNat now @ CHR ''-'' # showNat i = showNat now' @ CHR ''-'' # showNat i'"
    by (simp add: generatedId_def)
  then have "showNat now = showNat now' \<and> showNat i = showNat i'"
    by (rule append_Cons_eq_iff [OF showNat_no_dash [of now] showNat_no_dash [of i], THEN iffD1])
  then show ?thesis
    using showNat_inj [of now now'] showNat_inj [of i i'] by blast
qed

lemma loopBody_transaction_id:
  "transaction_id (loopBody net now i t) = orElse (txn_id t) (generatedId now i)"
  by (cases "fst (callMlApi net)")
    (simp_all add: loopBody_thrown loopBody_returned catchBody_fields)

lemma loopBody_up_to_id:
  "loopBody net now' i' t
     = (loopBody net now i t)\<lparr>transaction_id := orElse (txn_id t) (generatedId now' i')\<rparr>"
  by (cases "fst (callMlApi net)")
    (simp_all add: loopBody_thrown loopBody_returned catchBody_def Let_def)

lemma orElse_given: "orElse x [] \<noteq> [] \<Longrightarrow> orElse x d = orElse x []"
  by (cases x) (auto split: if_splits)

lemma orElse_missing: "orElse x [] = [] \<Longrightarrow> orElse x d = d"
  by (cases x) (auto split: if_splits)

text \<open>
  C9, as amended (determinism). For a fixed row and a fixed behaviour of the scorer, two
  runs of the scoring give results that agree on every field other than
  \<open>transaction_id\<close>, whatever the clock reads and wherever the row stands in the batch.
  The \<open>transaction_id\<close> is the row's \<open>txn_id\<close> when that is a non-empty string, and the
  two results are then identical. Otherwise it is generated from the clock reading and
  the index, and the two results are identical exactly when both are the same in the
  two runs.
\<close>

theorem scoring_repeatable_up_to_generated_id:
  "(loopBody net now i t)\<lparr>transaction_id := x\<rparr> = (loopBody net now' i' t)\<lparr>transaction_id := x\<rparr>
   \<and> transaction_id (loopBody net now i t) = orElse (txn_id t) (generatedId now i)
   \<and> (orElse (txn_id t) [] \<noteq> [] \<longrightarrow> loopBody net now i t = loopBody net now' i' t)
   \<and> (orElse (txn_id t) [] = [] \<longrightarrow>
        (loopBody net now i t = loopBody net now' i' t) = (now = now' \<and> i = i'))"
proof -
  have a: "(loopBody net now i t)\<lparr>transaction_id := x\<rparr>
             = (loopBody net now' i' t)\<lparr>transaction_id := x\<rparr>"
    by (subst loopBody_up_to_id [of net now' i' t now i]) simp
  have b: "loopBody net now i t = loopBody net now' i' t" if "orElse (txn_id t) [] \<noteq> []"
  proof -
    have "orElse (txn_id t) (generatedId now' i') = orElse (txn_id t) (generatedId now i)"
      using orElse_given [OF that, of "generatedId now' i'"]
        orElse_given [OF that, of "generatedId now i"] by simp
    then have "loopBody net now' i' t
        = (loopBody net now i t)\<lparr>transaction_id := transaction_id (loopBody net now i t)\<rparr>"
      by (subst loopBody_up_to_id [of net now' i' t now i])
        (simp add: loopBody_transaction_id)
    then show ?thesis by simp
  qed
  have c: "(loopBody net now i t = loopBody net now' i' t) = (now = now' \<and> i = i')"
    if "orElse (txn_id t) [] = []"
  proof
    assume "loopBody net now i t = loopBody net now' i' t"
    then have "transaction_id (loopBody net now i t) = transaction_id (loopBody net now' i' t)"
      by simp
    then have "generatedId now i = generatedId now' i'"
      by (simp add: loopBody_transaction_id orElse_missing [OF that])
    then show "now = now' \<and> i = i'" by (rule generatedId_inj)
  next
    assume "now = now' \<and> i = i'"
    then show "loopBody net now i t = loopBody net now' i' t" by simp
  qed
  show ?thesis
    using a b c loopBody_transaction_id [of net now i t] by blast
qed

text \<open>An instance of each part.\<close>

theorem scoring_repeatable_up_to_generated_id_witness:
  "orElse (txn_id refund_to_stranger) [] = ''T1''
   \<and> loopBody (net_answers (1 / 2)) 1700000000000 0 refund_to_stranger
       = loopBody (net_answers (1 / 2)) 1700000000001 5 refund_to_stranger
   \<and> orElse (txn_id blank_txn) [] = []
   \<and> (loopBody (net_answers (1 / 2)) 1700000000000 0 blank_txn)\<lparr>transaction_id := []\<rparr>
       = (loopBody (net_answers (1 / 2)) 1700000000001 5 blank_txn)\<lparr>transaction_id := []\<rparr>
   \<and> loopBody (net_answers (1 / 2)) 1700000000000 0 blank_txn
       \<noteq> loopBody (net_answers (1 / 2)) 1700000000001 5 blank_txn"
proof -
  have given: "orElse (txn_id refund_to_stranger) [] = ''T1''"
    by (simp add: refund_to_stranger_def blank_txn_def)
  have missing: "orElse (txn_id blank_txn) [] = []"
    by (simp add: blank_txn_def)
  note with_id = scoring_repeatable_up_to_generated_id
      [where net = "net_answers (1 / 2)" and now = 1700000000000 and i = 0 and t = refund_to_stranger and x = "[]" and now' = 1700000000001 and i' = 5]
  note without_id = scoring_repeatable_up_to_generated_id
      [where net = "net_answers (1 / 2)" and now = 1700000000000 and i = 0 and t = blank_txn and x = "[]" and now' = 1700000000001 and i' = 5]
  have a: "loopBody (net_answers (1 / 2)) 1700000000000 0 refund_to_stranger
       = loopBody (net_answers (1 / 2)) 1700000000001 5 refund_to_stranger"
    using with_id [THEN conjunct2, THEN conjunct2, THEN conjunct1] given by simp
  have b: "loopBody (net_answers (1 / 2)) 1700000000000 0 blank_txn
       \<noteq> loopBody (net_answers (1 / 2)) 1700000000001 5 blank_txn"
    using without_id [THEN conjunct2, THEN conjunct2, THEN conjunct2] missing by simp
  show ?thesis
    using given missing a b without_id [THEN conjunct1] by blast
qed

text \<open>
  C9 as stated fails for a row without \<open>txn_id\<close>: the same row and the same scorer
  answer, scored at two readings of the clock, give two different results.
\<close>

theorem generated_id_depends_on_clock:
  "transaction_id (loopBody (net_answers (1 / 2)) 1700000000000 0 blank_txn)
     = ''TXN-1700000000000-0''
   \<and> transaction_id (loopBody (net_answers (1 / 2)) 1700000000001 0 blank_txn)
     = ''TXN-1700000000001-0''
   \<and> loopBody (net_answers (1 / 2)) 1700000000000 0 blank_txn
       \<noteq> loopBody (net_answers (1 / 2)) 1700000000001 0 blank_txn"
proof -
  have a: "transaction_id (loopBody (net_answers (1 / 2)) 1700000000000 0 blank_txn)
     = ''TXN-1700000000000-0''"
    by (simp add: loopBody_net_answers blank_txn_def generatedId_def showNat_numeral showNat_0
        showNat_1)
  have b: "transaction_id (loopBody (net_answers (1 / 2)) 1700000000001 0 blank_txn)
     = ''TXN-1700000000001-0''"
    by (simp add: loopBody_net_answers blank_txn_def generatedId_def showNat_numeral showNat_0
        showNat_1)
  have "transaction_id (loopBody (net_answers (1 / 2)) 1700000000000 0 blank_txn)
      \<noteq> transaction_id (loopBody (net_answers (1 / 2)) 1700000000001 0 blank_txn)"
    unfolding a b by simp
  then have "loopBody (net_answers (1 / 2)) 1700000000000 0 blank_txn
       \<noteq> loopBody (net_answers (1 / 2)) 1700000000001 0 blank_txn"
    by metis
  then show ?thesis using a b by blast
qed

end
